theory Spec2Isabelle
  imports Main "HOL-Library.AList"
begin

section \<open>JavaScript values used by transform.js\<close>

text \<open>
  A JavaScript string is modelled as a \<^typ>\<open>string\<close>: the list of its code units, for
  text whose code units are below 256. A string is truthy exactly when it is not empty;
  this is the test behind every \<^verbatim>\<open>if (location.admin1Code)\<close>,
  \<^verbatim>\<open>if (locationsByAdminCode[key])\<close> and \<^verbatim>\<open>if (parent)\<close> of the source.
\<close>

definition truthy :: "string \<Rightarrow> bool" where
  "truthy s = (s \<noteq> [])"

text \<open>
  \<^verbatim>\<open>FEATURE_LEVELS\<close> and \<^verbatim>\<open>childrenMap\<close> are object literals, so a property read
  that finds no own property continues in \<^verbatim>\<open>Object.prototype\<close>. These are the names
  every such object inherits; reading one of them gives a function (or, for
  \<^verbatim>\<open>__proto__\<close>, the prototype object), never \<^verbatim>\<open>undefined\<close>.
\<close>

definition objectPrototypeNames :: "string list" where
  "objectPrototypeNames =
     [''constructor'', ''__defineGetter__'', ''__defineSetter__'', ''hasOwnProperty'',
      ''__lookupGetter__'', ''__lookupSetter__'', ''isPrototypeOf'', ''propertyIsEnumerable'',
      ''toString'', ''valueOf'', ''__proto__'', ''toLocaleString'']"

text \<open>
  What \<^verbatim>\<open>getAdminLevel\<close> can return: a number, or the inherited member that the
  lookup \<^verbatim>\<open>FEATURE_LEVELS[location.featureCode]\<close> found under the given name.
\<close>

datatype jslevel = Level nat | Member string

definition FEATURE_LEVELS :: "(string \<times> nat) list" where
  "FEATURE_LEVELS =
     [(''PCLI'', 0), (''ADM1'', 1), (''ADM2'', 2), (''ADM3'', 3), (''ADM4'', 4), (''ADM5'', 5)]"

text \<open>The property read \<^verbatim>\<open>FEATURE_LEVELS[code]\<close>; \<open>None\<close> is \<^verbatim>\<open>undefined\<close>.\<close>

definition FEATURE_LEVELS_get :: "string \<Rightarrow> jslevel option" where
  "FEATURE_LEVELS_get code =
     (case map_of FEATURE_LEVELS code of
        Some n \<Rightarrow> Some (Level n)
      | None \<Rightarrow> if code \<in> set objectPrototypeNames then Some (Member code) else None)"

section \<open>Country metadata records\<close>

text \<open>
  One row of the country table, with the columns that \<^verbatim>\<open>createCountryFiles\<close> and
  \<^verbatim>\<open>processCountryZip\<close> read. The record comes before the place record, so that
  an unqualified field name shared by both (\<open>name\<close>, \<open>population\<close>, \<open>geonameid\<close>)
  is the place record's.
\<close>

record country =
  iso :: string
  iso3 :: string
  name :: string
  capital :: string
  area :: string
  population :: string
  continent :: string
  languages :: string
  geonameid :: string

section \<open>Place records\<close>

record location =
  geonameid :: string
  name :: string
  asciiname :: string
  alternatenames :: string
  latitude :: string
  longitude :: string
  featureClass :: string
  featureCode :: string
  countryCode :: string
  cc2 :: string
  admin1Code :: string
  admin2Code :: string
  admin3Code :: string
  admin4Code :: string
  population :: string
  elevation :: string
  dem :: string
  timezone :: string
  modificationDate :: string

text \<open>\<^verbatim>\<open>line.split('\t')\<close>, \<^verbatim>\<open>content.split('\n')\<close>: splitting at one separator character.\<close>

fun splitOn :: "char \<Rightarrow> string \<Rightarrow> string list" where
  "splitOn c [] = [[]]"
| "splitOn c (x # xs) =
     (if x = c then [] # splitOn c xs
      else (case splitOn c xs of [] \<Rightarrow> [[x]] | y # ys \<Rightarrow> (x # y) # ys))"

definition TAB :: char where
  "TAB = CHR 0x09"

definition NEWLINE :: char where
  "NEWLINE = CHR 0x0A"

definition parseGeonamesLine :: "string \<Rightarrow> location option" where
  "parseGeonamesLine line =
     (let fields = splitOn TAB line in
      if length fields < 19 then None
      else Some \<lparr> geonameid = fields ! 0, name = fields ! 1, asciiname = fields ! 2,
                  alternatenames = fields ! 3, latitude = fields ! 4, longitude = fields ! 5,
                  featureClass = fields ! 6, featureCode = fields ! 7, countryCode = fields ! 8,
                  cc2 = fields ! 9, admin1Code = fields ! 10, admin2Code = fields ! 11,
                  admin3Code = fields ! 12, admin4Code = fields ! 13, population = fields ! 14,
                  elevation = fields ! 15, dem = fields ! 16, timezone = fields ! 17,
                  modificationDate = fields ! 18 \<rparr>)"

section \<open>Level Classifier\<close>

definition getAdminLevel :: "location \<Rightarrow> jslevel" where
  "getAdminLevel loc =
     (case FEATURE_LEVELS_get (featureCode loc) of
        Some l \<Rightarrow> l
      | None \<Rightarrow>
          if truthy (admin4Code loc) then Level 5
          else if truthy (admin3Code loc) then Level 4
          else if truthy (admin2Code loc) then Level 3
          else if truthy (admin1Code loc) then Level 2
          else Level 1)"

section \<open>Parent Resolver\<close>

text \<open>The four template strings that build a composite key.\<close>

definition key1 :: "location \<Rightarrow> string" where
  "key1 loc = countryCode loc @ ''.'' @ admin1Code loc"

definition key2 :: "location \<Rightarrow> string" where
  "key2 loc = countryCode loc @ ''.'' @ admin1Code loc @ ''.'' @ admin2Code loc"

definition key3 :: "location \<Rightarrow> string" where
  "key3 loc = countryCode loc @ ''.'' @ admin1Code loc @ ''.'' @ admin2Code loc
                @ ''.'' @ admin3Code loc"

definition key4 :: "location \<Rightarrow> string" where
  "key4 loc = countryCode loc @ ''.'' @ admin1Code loc @ ''.'' @ admin2Code loc
                @ ''.'' @ admin3Code loc @ ''.'' @ admin4Code loc"

text \<open>
  The Admin-Code Index \<^verbatim>\<open>locationsByAdminCode\<close> maps composite keys to geoname ids.
  Every key the program reads or writes contains a dot, and no inherited name does
  (lemma \<open>key_not_inherited\<close> below), so a read of the index sees own properties only.
  \<open>hit\<close> is the guarded read \<^verbatim>\<open>if (locationsByAdminCode[key]) return locationsByAdminCode[key]\<close>:
  an entry holding the empty string is falsy and counts as a miss.
\<close>

type_synonym index = "string \<rightharpoonup> string"

definition hit :: "index \<Rightarrow> string \<Rightarrow> string option" where
  "hit idx key = (case idx key of None \<Rightarrow> None | Some v \<Rightarrow> if truthy v then Some v else None)"

text \<open>
  The resolvers are sequences of blocks
  \<^verbatim>\<open>if (guard) { const key = ...; if (index[key]) return index[key]; }\<close>.
  A resolver state is the list of keys probed so far, with the value being returned once a
  probe has hit. \<open>tryKey\<close> runs one block: nothing happens after a return or under a false
  guard, otherwise the key is probed.
\<close>

type_synonym probing = "string list \<times> string option"

definition tryKey :: "index \<Rightarrow> bool \<Rightarrow> string \<Rightarrow> probing \<Rightarrow> probing" where
  "tryKey idx guard key st =
     (case snd st of
        Some v \<Rightarrow> st
      | None \<Rightarrow> if guard then (fst st @ [key], hit idx key) else st)"

text \<open>The last statement of both resolvers: \<^verbatim>\<open>return countryGeonameid\<close>.\<close>

definition orCountry :: "string \<Rightarrow> probing \<Rightarrow> string list \<times> string option" where
  "orCountry countryGeonameid st =
     (fst st, Some (case snd st of Some v \<Rightarrow> v | None \<Rightarrow> countryGeonameid))"

text \<open>
  \<open>determineParent_log\<close> returns the keys probed and the function's result; \<open>None\<close> is
  \<^verbatim>\<open>null\<close>. A level that is not a number fails every \<^verbatim>\<open>level === n\<close> test.
\<close>

definition determineParent_log :: "location \<Rightarrow> string \<Rightarrow> index \<Rightarrow> string list \<times> string option" where
  "determineParent_log loc countryGeonameid idx =
     (let level = getAdminLevel loc in
      if level = Level 0 then ([], None)
      else if level = Level 1 then ([], Some countryGeonameid)
      else
        let st = ([], None);
            st = tryKey idx (level = Level 2 \<and> truthy (admin1Code loc)) (key1 loc) st;
            st = tryKey idx (level = Level 3 \<and> truthy (admin1Code loc) \<and> truthy (admin2Code loc))
                   (key2 loc) st;
            st = tryKey idx (level = Level 4 \<and> truthy (admin1Code loc) \<and> truthy (admin2Code loc)
                   \<and> truthy (admin3Code loc)) (key3 loc) st;
            st = tryKey idx (level = Level 5 \<and> truthy (admin1Code loc) \<and> truthy (admin2Code loc)
                   \<and> truthy (admin3Code loc) \<and> truthy (admin4Code loc)) (key4 loc) st
        in orCountry countryGeonameid st)"

definition determineParent :: "location \<Rightarrow> string \<Rightarrow> index \<Rightarrow> string option" where
  "determineParent loc countryGeonameid idx = snd (determineParent_log loc countryGeonameid idx)"

definition determineParentForLocation_log ::
    "location \<Rightarrow> string \<Rightarrow> index \<Rightarrow> string list \<times> string option" where
  "determineParentForLocation_log loc countryGeonameid idx =
     (if FEATURE_LEVELS_get (featureCode loc) \<noteq> None
      then determineParent_log loc countryGeonameid idx
      else
        let st = ([], None);
            st = tryKey idx (truthy (admin4Code loc) \<and> truthy (admin3Code loc)
                   \<and> truthy (admin2Code loc) \<and> truthy (admin1Code loc)) (key4 loc) st;
            st = tryKey idx (truthy (admin3Code loc) \<and> truthy (admin2Code loc)
                   \<and> truthy (admin1Code loc)) (key3 loc) st;
            st = tryKey idx (truthy (admin2Code loc) \<and> truthy (admin1Code loc)) (key2 loc) st;
            st = tryKey idx (truthy (admin1Code loc)) (key1 loc) st
        in orCountry countryGeonameid st)"

definition determineParentForLocation :: "location \<Rightarrow> string \<Rightarrow> index \<Rightarrow> string option" where
  "determineParentForLocation loc countryGeonameid idx =
     snd (determineParentForLocation_log loc countryGeonameid idx)"

section \<open>Admin-Code Index construction (first pass)\<close>

text \<open>
  \<^verbatim>\<open>!line.trim()\<close> holds when every code unit of the line is white space or a line
  terminator; below 256 these are tab, line feed, vertical tab, form feed, carriage
  return, space and the no-break space.
\<close>

definition jsWhitespace :: "char \<Rightarrow> bool" where
  "jsWhitespace c =
     (c \<in> set [CHR 0x09, CHR 0x0A, CHR 0x0B, CHR 0x0C, CHR 0x0D, CHR 0x20, CHR 0xA0])"

definition blankLine :: "string \<Rightarrow> bool" where
  "blankLine line = list_all jsWhitespace line"

text \<open>The body of \<^verbatim>\<open>if (FEATURE_LEVELS[location.featureCode] !== undefined) { ... }\<close>.\<close>

definition indexStep :: "location \<Rightarrow> index \<Rightarrow> index" where
  "indexStep loc idx =
     (if FEATURE_LEVELS_get (featureCode loc) \<noteq> None then
        let level = getAdminLevel loc in
        if level = Level 1 \<and> truthy (admin1Code loc)
        then idx(key1 loc \<mapsto> geonameid loc)
        else if level = Level 2 \<and> truthy (admin1Code loc) \<and> truthy (admin2Code loc)
        then idx(key2 loc \<mapsto> geonameid loc)
        else if level = Level 3 \<and> truthy (admin1Code loc) \<and> truthy (admin2Code loc)
                  \<and> truthy (admin3Code loc)
        then idx(key3 loc \<mapsto> geonameid loc)
        else if level = Level 4 \<and> truthy (admin1Code loc) \<and> truthy (admin2Code loc)
                  \<and> truthy (admin3Code loc) \<and> truthy (admin4Code loc)
        then idx(key4 loc \<mapsto> geonameid loc)
        else idx
      else idx)"

text \<open>
  The first loop of \<^verbatim>\<open>processCountryZip\<close> over the lines of the data file; the state is
  \<^verbatim>\<open>locationsByAdminCode\<close> and \<^verbatim>\<open>allLocations\<close>.
\<close>

fun firstPass :: "string list \<Rightarrow> index \<times> location list \<Rightarrow> index \<times> location list" where
  "firstPass [] st = st"
| "firstPass (line # lines) (idx, allLocations) =
     (if blankLine line then firstPass lines (idx, allLocations)
      else (case parseGeonamesLine line of
              None \<Rightarrow> firstPass lines (idx, allLocations)
            | Some loc \<Rightarrow> firstPass lines (indexStep loc idx, allLocations @ [loc])))"

section \<open>Node Store\<close>

text \<open>
  The data directory holds one JSON file per key; the store maps the base name of a file
  (the part before \<^verbatim>\<open>.json\<close>) to the parsed content. Writing is assumed to succeed:
  ids are taken to be usable as file names. The program writes objects, whose members keep
  their order, and one array of strings (the country list).
\<close>

datatype json = JNull | JString string | JNumber nat | JStrings "string list" | JEmptyObject

datatype doc = Obj "(string \<times> json) list" | Arr "string list"

type_synonym store = "string \<rightharpoonup> doc"

definition memberOf :: "doc \<Rightarrow> string \<Rightarrow> json option" where
  "memberOf d k = (case d of Obj ms \<Rightarrow> map_of ms k | Arr xs \<Rightarrow> None)"

text \<open>
  \<^verbatim>\<open>parentData.children = childIds\<close> followed by \<^verbatim>\<open>JSON.stringify\<close>: an object gets the
  member in place, or as its last member; an array stays as it was, since its extra
  property is not serialised.
\<close>

fun setChildren :: "string list \<Rightarrow> doc \<Rightarrow> doc" where
  "setChildren childIds (Obj ms) = Obj (AList.update ''children'' (JStrings childIds) ms)"
| "setChildren childIds (Arr xs) = Arr xs"

section \<open>Country Catalog Builder\<close>

definition countryCodeDoc :: "country \<Rightarrow> doc" where
  "countryCodeDoc c = Obj [(''id'', JString (country.geonameid c)), (''name'', JString (country.name c))]"

definition countryNode :: "country \<Rightarrow> doc" where
  "countryNode c =
     Obj [(''id'', JString (country.geonameid c)), (''parent'', JNull), (''children'', JStrings []),
          (''name'', JString (country.name c)), (''level'', JNumber 0),
          (''iso'', JString (iso c)), (''iso3'', JString (iso3 c)),
          (''capital'', JString (capital c)), (''area'', JString (area c)),
          (''population'', JString (country.population c)),
          (''continent'', JString (continent c)), (''languages'', JString (languages c))]"

fun createCountryFiles :: "country list \<Rightarrow> store \<Rightarrow> store" where
  "createCountryFiles [] s = s"
| "createCountryFiles (c # countries) s =
     createCountryFiles countries
       ((s(iso c \<mapsto> countryCodeDoc c))(country.geonameid c \<mapsto> countryNode c))"

section \<open>Hierarchy Builder\<close>

subsection \<open>Selecting the data file\<close>

record zipEntry =
  entryName :: string
  isDirectory :: bool
  entryData :: string

fun jsIncludes :: "string \<Rightarrow> string \<Rightarrow> bool" where
  "jsIncludes [] sub = (sub = [])"
| "jsIncludes (x # xs) sub = (take (length sub) (x # xs) = sub \<or> jsIncludes xs sub)"

definition endsWith :: "string \<Rightarrow> string \<Rightarrow> bool" where
  "endsWith s suffix = (length suffix \<le> length s \<and> drop (length s - length suffix) s = suffix)"

text \<open>The callback of \<^verbatim>\<open>zipEntries.find\<close>, and the call itself.\<close>

definition isDataEntry :: "string \<Rightarrow> zipEntry \<Rightarrow> bool" where
  "isDataEntry countryIso entry =
     (entryName entry = countryIso @ ''.txt'' \<or>
      (endsWith (entryName entry) ''.txt'' \<and> \<not> jsIncludes (entryName entry) ''readme''
         \<and> \<not> isDirectory entry))"

definition findDataEntry :: "string \<Rightarrow> zipEntry list \<Rightarrow> zipEntry option" where
  "findDataEntry countryIso zipEntries = List.find (isDataEntry countryIso) zipEntries"

subsection \<open>Second pass: nodes and the Children Aggregator\<close>

text \<open>
  \<^verbatim>\<open>childrenMap\<close> is an object from parent ids to arrays of child ids, kept here as an
  association list in the order in which the parents were first seen. The block
  \<^verbatim>\<open>if (parent) { if (!childrenMap[parent]) childrenMap[parent] = []; childrenMap[parent].push(id) }\<close>
  does nothing for \<^verbatim>\<open>null\<close> and for the empty string. For a parent id that is one of the
  inherited names the read finds the inherited member, which is truthy and has no
  \<^verbatim>\<open>push\<close>: the call raises a TypeError, here \<open>None\<close>.
\<close>

type_synonym childrenMap = "(string \<times> string list) list"

definition trackChild :: "string option \<Rightarrow> string \<Rightarrow> childrenMap \<Rightarrow> childrenMap option" where
  "trackChild parent child cm =
     (case parent of
        None \<Rightarrow> Some cm
      | Some p \<Rightarrow>
          if \<not> truthy p then Some cm
          else (case map_of cm p of
                  Some childIds \<Rightarrow> Some (AList.update p (childIds @ [child]) cm)
                | None \<Rightarrow>
                    if p \<in> set objectPrototypeNames then None
                    else Some (cm @ [(p, [child])])))"

text \<open>
  \<^verbatim>\<open>JSON.stringify\<close> leaves out a member whose value is a function and writes the
  prototype object, which has no enumerable member, as an empty object.
\<close>

definition levelMember :: "jslevel \<Rightarrow> (string \<times> json) list" where
  "levelMember level =
     (case level of
        Level n \<Rightarrow> [(''level'', JNumber n)]
      | Member m \<Rightarrow> if m = ''__proto__'' then [(''level'', JEmptyObject)] else [])"

definition locationNode :: "location \<Rightarrow> jslevel \<Rightarrow> string option \<Rightarrow> doc" where
  "locationNode loc level parent =
     Obj ([(''id'', JString (geonameid loc)),
           (''parent'', (case parent of None \<Rightarrow> JNull | Some p \<Rightarrow> JString p)),
           (''children'', JStrings []),
           (''name'', JString (name loc))]
          @ levelMember level
          @ [(''latitude'', JString (latitude loc)),
             (''longitude'', JString (longitude loc)),
             (''population'', JString (population loc))])"

text \<open>
  The second loop. \<open>Inl\<close> is the exception leaving the loop, with the store as written
  up to then; \<open>Inr\<close> is the normal end.
\<close>

fun secondPass ::
    "string \<Rightarrow> index \<Rightarrow> location list \<Rightarrow> store \<times> childrenMap \<Rightarrow> store + store \<times> childrenMap" where
  "secondPass countryGeonameid idx [] st = Inr st"
| "secondPass countryGeonameid idx (loc # locs) (s, cm) =
     (let level = getAdminLevel loc;
          parent = determineParentForLocation loc countryGeonameid idx
      in case trackChild parent (geonameid loc) cm of
           None \<Rightarrow> Inl s
         | Some cm' \<Rightarrow>
             secondPass countryGeonameid idx locs
               (s(geonameid loc \<mapsto> locationNode loc level parent), cm'))"

subsection \<open>Third pass: attaching children\<close>

text \<open>
  The loop over \<^verbatim>\<open>Object.entries(childrenMap)\<close>. JavaScript lists integer-like keys
  first, in ascending order, and then the others in insertion order; the loop here runs in
  insertion order. The keys are distinct and each step writes the file of its own key
  only, so the resulting store is the same for every order (lemma \<open>thirdPass_apply\<close>).
\<close>

fun thirdPass :: "childrenMap \<Rightarrow> store \<Rightarrow> store" where
  "thirdPass [] s = s"
| "thirdPass ((parentId, childIds) # entries) s =
     thirdPass entries
       (case s parentId of
          None \<Rightarrow> s
        | Some parentData \<Rightarrow> s(parentId \<mapsto> setChildren childIds parentData))"

subsection \<open>Processing one country\<close>

text \<open>
  What \<^verbatim>\<open>existsSync(zipPath)\<close> and \<^verbatim>\<open>new AdmZip(zipPath)\<close> find: no file, a file that
  cannot be read as an archive (the constructor raises inside the \<^verbatim>\<open>try\<close>), or the
  entries of the archive.
\<close>

datatype archive = NoZip | Unreadable | Zip "zipEntry list"

datatype outcome = SkippedNoZip | SkippedNoData | Failed | Processed

definition processCountryZip :: "country \<Rightarrow> archive \<Rightarrow> store \<Rightarrow> store \<times> outcome" where
  "processCountryZip c zipFile s =
     (case zipFile of
        NoZip \<Rightarrow> (s, SkippedNoZip)
      | Unreadable \<Rightarrow> (s, Failed)
      | Zip zipEntries \<Rightarrow>
          (case findDataEntry (iso c) zipEntries of
             None \<Rightarrow> (s, SkippedNoData)
           | Some dataEntry \<Rightarrow>
               let lines = splitOn NEWLINE (entryData dataEntry);
                   (locationsByAdminCode, allLocations) = firstPass lines (Map.empty, [])
               in case secondPass (country.geonameid c) locationsByAdminCode allLocations (s, []) of
                    Inl s' \<Rightarrow> (s', Failed)
                  | Inr (s', childrenMap) \<Rightarrow> (thirdPass childrenMap s', Processed)))"

section \<open>Notions used to state the properties\<close>

text \<open>
  The composite key of \<open>k\<close> admin segments of a record, and whether its admin codes
  1 to \<open>k\<close> are all populated.
\<close>

definition adminCodes :: "location \<Rightarrow> string list" where
  "adminCodes loc = [admin1Code loc, admin2Code loc, admin3Code loc, admin4Code loc]"

definition chainKey :: "location \<Rightarrow> nat \<Rightarrow> string" where
  "chainKey loc k = countryCode loc @ concat (map (\<lambda>a. ''.'' @ a) (take k (adminCodes loc)))"

definition chainPopulated :: "location \<Rightarrow> nat \<Rightarrow> bool" where
  "chainPopulated loc k = list_all truthy (take k (adminCodes loc))"

text \<open>The records that the first loop keeps, and the index it builds from them.\<close>

definition parseLines :: "string list \<Rightarrow> location list" where
  "parseLines lines =
     List.map_filter (\<lambda>line. if blankLine line then None else parseGeonamesLine line) lines"

definition buildIndex :: "location list \<Rightarrow> index" where
  "buildIndex locs = fold indexStep locs Map.empty"

text \<open>
  A place record with the given id, feature code, country code and admin1..admin4 codes,
  every other column empty; used to write concrete inputs.
\<close>

definition place ::
    "string \<Rightarrow> string \<Rightarrow> string \<Rightarrow> string \<Rightarrow> string \<Rightarrow> string \<Rightarrow> string \<Rightarrow> location" where
  "place gid fcode cc a1 a2 a3 a4 =
     \<lparr> geonameid = gid, name = [], asciiname = [], alternatenames = [], latitude = [],
       longitude = [], featureClass = [], featureCode = fcode, countryCode = cc, cc2 = [],
       admin1Code = a1, admin2Code = a2, admin3Code = a3, admin4Code = a4, population = [],
       elevation = [], dem = [], timezone = [], modificationDate = [] \<rparr>"

text \<open>The line of a data file that holds a given record.\<close>

definition lineOf :: "location \<Rightarrow> string" where
  "lineOf loc =
     geonameid loc @ TAB # name loc @ TAB # asciiname loc @ TAB # alternatenames loc
       @ TAB # latitude loc @ TAB # longitude loc @ TAB # featureClass loc
       @ TAB # featureCode loc @ TAB # countryCode loc @ TAB # cc2 loc
       @ TAB # admin1Code loc @ TAB # admin2Code loc @ TAB # admin3Code loc
       @ TAB # admin4Code loc @ TAB # population loc @ TAB # elevation loc
       @ TAB # dem loc @ TAB # timezone loc @ TAB # modificationDate loc"

text \<open>The separator of composite keys does not occur in a record's codes.\<close>

definition dotFree :: "location \<Rightarrow> bool" where
  "dotFree loc = list_all (\<lambda>s. CHR ''.'' \<notin> set s) (countryCode loc # adminCodes loc)"

text \<open>The entry that one step of the first loop writes for a record, if it writes one.\<close>

definition indexEntry :: "location \<Rightarrow> (string \<times> string) option" where
  "indexEntry loc =
     (case FEATURE_LEVELS_get (featureCode loc) of
        Some (Level n) \<Rightarrow>
          if 1 \<le> n \<and> n \<le> 4 \<and> chainPopulated loc n
          then Some (chainKey loc n, geonameid loc) else None
      | _ \<Rightarrow> None)"

text \<open>The number of separators in a key.\<close>

definition dots :: "string \<Rightarrow> nat" where
  "dots s = length (filter (\<lambda>c. c = CHR ''.'') s)"

section \<open>The fallback chain in the words of the specification\<close>








text \<open>The text of a data file that holds the given records, one per line.\<close>

definition fileOf :: "location list \<Rightarrow> string" where
  "fileOf locs = concat (map (\<lambda>loc. lineOf loc @ [NEWLINE]) locs)"

section \<open>Reading the node store\<close>

text \<open>
  The parent id, the level and the children that a stored node carries, and the node
  reached from a given one by following parent links, at most \<open>fuel\<close> of them.
\<close>

definition nodeParent :: "store \<Rightarrow> string \<Rightarrow> string option" where
  "nodeParent s k =
     (case s k of
        None \<Rightarrow> None
      | Some d \<Rightarrow> (case memberOf d ''parent'' of Some (JString p) \<Rightarrow> Some p | _ \<Rightarrow> None))"

definition nodeLevel :: "store \<Rightarrow> string \<Rightarrow> nat option" where
  "nodeLevel s k =
     (case s k of
        None \<Rightarrow> None
      | Some d \<Rightarrow> (case memberOf d ''level'' of Some (JNumber n) \<Rightarrow> Some n | _ \<Rightarrow> None))"



section \<open>Example inputs\<close>

text \<open>
  An archive as the download step stores it: a readme and the data file of the country.
\<close>

definition archiveOf :: "string \<Rightarrow> location list \<Rightarrow> archive" where
  "archiveOf countryIso locs =
     Zip [\<lparr> entryName = ''readme.txt'', isDirectory = False, entryData = ''README'' \<rparr>,
          \<lparr> entryName = countryIso @ ''.txt'', isDirectory = False, entryData = fileOf locs \<rparr>]"

definition usCountry :: country where
  "usCountry = \<lparr> iso = ''US'', iso3 = ''USA'', country.name = ''United States'',
       capital = ''Washington'', area = ''9629091'', country.population = ''327167434'',
       continent = ''NA'', languages = ''en-US'', country.geonameid = ''6252001'' \<rparr>"

definition california :: location where
  "california = place ''5332921'' ''ADM1'' ''US'' ''CA'' [] [] []"

definition sanFrancisco :: location where
  "sanFrancisco = place ''5391959'' ''ADM2'' ''US'' ''CA'' ''075'' [] []"

definition losAngeles :: location where
  "losAngeles = place ''5368381'' ''ADM2'' ''US'' ''CA'' ''037'' [] []"

definition missionDistrict :: location where
  "missionDistrict = place ''5381438'' ''PPLX'' ''US'' ''CA'' ''075'' [] []"

text \<open>A file in which the line of one county occurs twice, and one with distinct ids.\<close>

definition usRecords :: "location list" where
  "usRecords = [california, sanFrancisco, losAngeles, sanFrancisco]"

definition usPlaces :: "location list" where
  "usPlaces = [california, sanFrancisco, losAngeles, missionDistrict]"

text \<open>Two records whose composite keys collide because an admin code contains a dot.\<close>

definition dottedRecords :: "location list" where
  "dottedRecords = [place ''1'' ''ADM2'' ''US'' ''A'' ''B'' [] [], place ''2'' ''PPL'' ''US'' ''A.B'' [] [] []]"

text \<open>A country whose data file holds the row of the country itself.\<close>

definition andorra :: country where
  "andorra = \<lparr> iso = ''AD'', iso3 = ''AND'', country.name = ''Andorra'',
       capital = ''Andorra la Vella'', area = ''468'', country.population = ''77006'',
       continent = ''EU'', languages = ''ca'', country.geonameid = ''3041565'' \<rparr>"

definition andorraRecords :: "location list" where
  "andorraRecords = [place ''3041565'' ''PCLI'' ''AD'' ''00'' [] [] [],
                     place ''3041203'' ''ADM1'' ''AD'' ''02'' [] [] []]"

text \<open>A file with one id on two different rows, and a record with an inherited name as feature code.\<close>

definition duplicateRecords :: "location list" where
  "duplicateRecords = [place ''7'' ''ADM1'' ''US'' ''CA'' [] [] [],
                       place ''7'' ''ADM2'' ''US'' ''CA'' ''075'' [] []]"

definition inheritedCodeRecords :: "location list" where
  "inheritedCodeRecords = [place ''8'' ''valueOf'' ''US'' ''CA'' [] [] []]"

text \<open>A dependent territory: its own row has the feature code PCLD, which is not a recognized one.\<close>

definition puertoRico :: country where
  "puertoRico = \<lparr> iso = ''PR'', iso3 = ''PRI'', country.name = ''Puerto Rico'',
       capital = ''San Juan'', area = ''9104'', country.population = ''3195153'',
       continent = ''NA'', languages = ''en-PR,es-PR'', country.geonameid = ''4566966'' \<rparr>"

definition puertoRicoRecords :: "location list" where
  "puertoRicoRecords = [place ''4566966'' ''PCLD'' ''PR'' ''00'' [] [] []]"

section \<open>Auxiliary facts\<close>

subsection \<open>Feature codes and levels\<close>

lemma FEATURE_LEVELS_get_codes:
  "FEATURE_LEVELS_get ''PCLI'' = Some (Level 0)"
  "FEATURE_LEVELS_get ''ADM1'' = Some (Level 1)"
  "FEATURE_LEVELS_get ''ADM2'' = Some (Level 2)"
  "FEATURE_LEVELS_get ''ADM3'' = Some (Level 3)"
  "FEATURE_LEVELS_get ''ADM4'' = Some (Level 4)"
  "FEATURE_LEVELS_get ''ADM5'' = Some (Level 5)"
  by (simp_all add: FEATURE_LEVELS_get_def FEATURE_LEVELS_def)

lemma FEATURE_LEVELS_get_Level:
  "FEATURE_LEVELS_get code = Some (Level n) \<longleftrightarrow> map_of FEATURE_LEVELS code = Some n"
  by (simp add: FEATURE_LEVELS_get_def split: option.splits)


lemma map_of_FEATURE_LEVELS_cases:
  "map_of FEATURE_LEVELS code = Some n \<Longrightarrow>
     (code = ''PCLI'' \<and> n = 0) \<or> (code = ''ADM1'' \<and> n = 1) \<or> (code = ''ADM2'' \<and> n = 2) \<or>
     (code = ''ADM3'' \<and> n = 3) \<or> (code = ''ADM4'' \<and> n = 4) \<or> (code = ''ADM5'' \<and> n = 5)"
  by (simp add: FEATURE_LEVELS_def split: if_splits)

lemma getAdminLevel_recognized:
  "FEATURE_LEVELS_get (featureCode loc) = Some l \<Longrightarrow> getAdminLevel loc = l"
  by (simp add: getAdminLevel_def)

lemma level_of_code:
  "map_of FEATURE_LEVELS (featureCode loc) = Some n \<Longrightarrow> getAdminLevel loc = Level n"
  by (simp add: getAdminLevel_def FEATURE_LEVELS_get_def)


subsection \<open>Composite keys\<close>

lemma chainKey_simps:
  "chainKey loc 0 = countryCode loc"
  "chainKey loc (Suc 0) = key1 loc" "chainKey loc 2 = key2 loc"
  "chainKey loc 3 = key3 loc" "chainKey loc 4 = key4 loc"
  by (simp_all add: chainKey_def adminCodes_def key1_def key2_def key3_def key4_def
        numeral_2_eq_2 numeral_3_eq_3 eval_nat_numeral)

lemma chainPopulated_simps:
  "chainPopulated loc 0"
  "chainPopulated loc (Suc 0) \<longleftrightarrow> truthy (admin1Code loc)"
  "chainPopulated loc 2 \<longleftrightarrow> truthy (admin1Code loc) \<and> truthy (admin2Code loc)"
  "chainPopulated loc 3 \<longleftrightarrow> truthy (admin1Code loc) \<and> truthy (admin2Code loc) \<and> truthy (admin3Code loc)"
  "chainPopulated loc 4 \<longleftrightarrow> truthy (admin1Code loc) \<and> truthy (admin2Code loc) \<and> truthy (admin3Code loc)
      \<and> truthy (admin4Code loc)"
  by (simp_all add: chainPopulated_def adminCodes_def eval_nat_numeral)

lemma key_not_inherited:
  "key1 loc \<notin> set objectPrototypeNames" "key2 loc \<notin> set objectPrototypeNames"
  "key3 loc \<notin> set objectPrototypeNames" "key4 loc \<notin> set objectPrototypeNames"
proof -
  have no_dot: "\<forall>n\<in>set objectPrototypeNames. CHR ''.'' \<notin> set n"
    by (simp add: objectPrototypeNames_def)
  have "CHR ''.'' \<in> set (key1 loc)" "CHR ''.'' \<in> set (key2 loc)"
       "CHR ''.'' \<in> set (key3 loc)" "CHR ''.'' \<in> set (key4 loc)"
    by (simp_all add: key1_def key2_def key3_def key4_def)
  with no_dot show "key1 loc \<notin> set objectPrototypeNames" "key2 loc \<notin> set objectPrototypeNames"
    "key3 loc \<notin> set objectPrototypeNames" "key4 loc \<notin> set objectPrototypeNames"
    by blast+
qed

lemma dots_segments:
  "\<forall>a\<in>set as. CHR ''.'' \<notin> set a \<Longrightarrow> dots (concat (map (\<lambda>a. ''.'' @ a) as)) = length as"
  by (induction as) (auto simp: dots_def filter_empty_conv)

lemma dots_chainKey:
  assumes "dotFree loc" "k \<le> 4"
  shows "dots (chainKey loc k) = k"
proof -
  from assms(1) have cc: "CHR ''.'' \<notin> set (countryCode loc)"
    and codes: "\<forall>a\<in>set (adminCodes loc). CHR ''.'' \<notin> set a"
    by (simp_all add: dotFree_def list_all_iff)
  from codes have "\<forall>a\<in>set (take k (adminCodes loc)). CHR ''.'' \<notin> set a"
    by (meson in_set_takeD)
  then have "dots (concat (map (\<lambda>a. ''.'' @ a) (take k (adminCodes loc)))) = length (take k (adminCodes loc))"
    by (rule dots_segments)
  moreover have "length (take k (adminCodes loc)) = k"
    using assms(2) by (simp add: adminCodes_def)
  moreover have "dots (countryCode loc) = 0"
    using cc by (auto simp: dots_def filter_empty_conv)
  ultimately show ?thesis by (simp add: chainKey_def dots_def)
qed

lemma chainKey_eq_level:
  assumes "chainKey a m = chainKey b n" "dotFree a" "dotFree b" "m \<le> 4" "n \<le> 4"
  shows "m = n"
  using dots_chainKey [OF assms(2) assms(4)] dots_chainKey [OF assms(3) assms(5)] assms(1)
  by simp


subsection \<open>The resolvers\<close>

lemma hit_Some_iff: "hit idx key = Some v \<longleftrightarrow> idx key = Some v \<and> truthy v"
  by (auto simp: hit_def split: option.splits)

lemma tryKey_simps:
  "tryKey idx g k (ks, Some v) = (ks, Some v)"
  "tryKey idx g k (ks, None) = (if g then (ks @ [k], hit idx k) else (ks, None))"
  "tryKey idx False k st = st"
  by (simp_all add: tryKey_def split: option.splits)

lemma determineParent_log_2:
  "getAdminLevel loc = Level 2 \<Longrightarrow> determineParent_log loc c idx =
     (if truthy (admin1Code loc) then [key1 loc] else [],
      Some (if truthy (admin1Code loc)
            then (case hit idx (key1 loc) of Some v \<Rightarrow> v | None \<Rightarrow> c) else c))"
  by (simp add: determineParent_log_def tryKey_simps orCountry_def Let_def)

lemma determineParent_log_3:
  "getAdminLevel loc = Level 3 \<Longrightarrow> determineParent_log loc c idx =
     (if chainPopulated loc 2 then [key2 loc] else [],
      Some (if chainPopulated loc 2
            then (case hit idx (key2 loc) of Some v \<Rightarrow> v | None \<Rightarrow> c) else c))"
  by (simp add: determineParent_log_def tryKey_simps orCountry_def Let_def chainPopulated_simps)

lemma determineParent_log_4:
  "getAdminLevel loc = Level 4 \<Longrightarrow> determineParent_log loc c idx =
     (if chainPopulated loc 3 then [key3 loc] else [],
      Some (if chainPopulated loc 3
            then (case hit idx (key3 loc) of Some v \<Rightarrow> v | None \<Rightarrow> c) else c))"
  by (simp add: determineParent_log_def tryKey_simps orCountry_def Let_def chainPopulated_simps)

lemma determineParent_log_5:
  "getAdminLevel loc = Level 5 \<Longrightarrow> determineParent_log loc c idx =
     (if chainPopulated loc 4 then [key4 loc] else [],
      Some (if chainPopulated loc 4
            then (case hit idx (key4 loc) of Some v \<Rightarrow> v | None \<Rightarrow> c) else c))"
  by (simp add: determineParent_log_def tryKey_simps orCountry_def Let_def chainPopulated_simps)

lemma determineParent_log_level:
  assumes "getAdminLevel loc = Level n" "2 \<le> n" "n \<le> 5"
  shows "determineParent_log loc c idx =
           (if chainPopulated loc (n - 1) then [chainKey loc (n - 1)] else [],
            Some (if chainPopulated loc (n - 1)
                  then (case hit idx (chainKey loc (n - 1)) of Some v \<Rightarrow> v | None \<Rightarrow> c)
                  else c))"
proof -
  from assms have "n = 2 \<or> n = 3 \<or> n = 4 \<or> n = 5" by arith
  then show ?thesis
  proof (elim disjE)
    assume "n = 2" with assms(1) show ?thesis
      by (simp add: determineParent_log_2 chainKey_simps chainPopulated_simps)
  next
    assume "n = 3" with assms(1) show ?thesis
      by (simp add: determineParent_log_3 chainKey_simps)
  next
    assume "n = 4" with assms(1) show ?thesis
      by (simp add: determineParent_log_4 chainKey_simps)
  next
    assume "n = 5" with assms(1) show ?thesis
      by (simp add: determineParent_log_5 chainKey_simps)
  qed
qed

lemma resolver_recognized:
  "FEATURE_LEVELS_get (featureCode loc) \<noteq> None \<Longrightarrow>
     determineParentForLocation_log loc c idx = determineParent_log loc c idx"
  by (simp add: determineParentForLocation_log_def)









lemma tryKey_result:
  assumes "snd st = None \<or> (\<exists>k. hit idx k = snd st)"
  shows "snd (tryKey idx g key st) = None \<or> (\<exists>k. hit idx k = snd (tryKey idx g key st))"
  using assms by (cases "snd st") (auto simp: tryKey_def)

lemma tryKey4_result:
  "snd (tryKey idx g4 k4 (tryKey idx g3 k3 (tryKey idx g2 k2 (tryKey idx g1 k1 ([], None))))) = None \<or>
   (\<exists>k. hit idx k = snd (tryKey idx g4 k4 (tryKey idx g3 k3 (tryKey idx g2 k2 (tryKey idx g1 k1 ([], None))))))"
  by (intro tryKey_result) simp

lemma orCountry_result:
  assumes "snd st = None \<or> (\<exists>k. hit idx k = snd st)" "snd (orCountry c st) = Some p"
  shows "p = c \<or> (\<exists>k. hit idx k = Some p)"
  using assms by (cases "snd st") (auto simp: orCountry_def)

lemma resolved_parent_cases:
  assumes "determineParentForLocation loc c idx = Some p"
  shows "p = c \<or> (\<exists>k. hit idx k = Some p)"
proof (cases "FEATURE_LEVELS_get (featureCode loc) = None")
  case True
  with assms show ?thesis
    by (simp add: determineParentForLocation_def determineParentForLocation_log_def Let_def)
       (erule orCountry_result [OF tryKey4_result])
next
  case False
  show ?thesis
  proof (cases "getAdminLevel loc = Level 0 \<or> getAdminLevel loc = Level 1")
    case True
    with False assms show ?thesis
      by (auto simp: determineParentForLocation_def determineParentForLocation_log_def
            determineParent_log_def)
  next
    case False
    with \<open>FEATURE_LEVELS_get (featureCode loc) \<noteq> None\<close> assms show ?thesis
      by (simp add: determineParentForLocation_def determineParentForLocation_log_def
            determineParent_log_def Let_def)
         (erule orCountry_result [OF tryKey4_result])
  qed
qed




subsection \<open>The first loop and the index\<close>

lemma indexStep_eq:
  "indexStep loc idx = (case indexEntry loc of None \<Rightarrow> idx | Some (k, v) \<Rightarrow> idx(k \<mapsto> v))"
proof (cases "FEATURE_LEVELS_get (featureCode loc)")
  case None
  then show ?thesis by (simp add: indexStep_def indexEntry_def)
next
  case (Some l)
  show ?thesis
  proof (cases l)
    case (Member m)
    with Some show ?thesis
      by (simp add: indexStep_def indexEntry_def getAdminLevel_def)
  next
    case (Level n)
    with Some have lv: "getAdminLevel loc = Level n" by (simp add: getAdminLevel_def)
    have "n = 0 \<or> n = 1 \<or> n = 2 \<or> n = 3 \<or> n = 4 \<or> 5 \<le> n" by arith
    then show ?thesis
      using Some Level lv
      by (elim disjE)
         (simp_all add: indexStep_def indexEntry_def chainKey_simps chainPopulated_simps Let_def)
  qed
qed

lemma firstPass_eq:
  "firstPass lines (idx, allLocations) =
     (fold indexStep (parseLines lines) idx, allLocations @ parseLines lines)"
proof (induction lines arbitrary: idx allLocations)
  case Nil
  show ?case by (simp add: parseLines_def map_filter_simps)
next
  case (Cons line lines)
  show ?case
  proof (cases "blankLine line")
    case True
    then show ?thesis using Cons.IH by (simp add: parseLines_def map_filter_simps)
  next
    case False
    then show ?thesis
      using Cons.IH by (cases "parseGeonamesLine line") (simp_all add: parseLines_def map_filter_simps)
  qed
qed

lemma firstPass_start:
  "firstPass lines (Map.empty, []) = (buildIndex (parseLines lines), parseLines lines)"
  by (simp add: firstPass_eq buildIndex_def)

lemma firstPassD:
  "firstPass lines (Map.empty, []) = (idx, locs) \<Longrightarrow>
     locs = parseLines lines \<and> idx = buildIndex locs"
  by (auto simp: firstPass_start)

lemma fold_indexStep_origin:
  "fold indexStep locs idx key = Some v \<Longrightarrow>
     idx key = Some v \<or> (\<exists>loc\<in>set locs. indexEntry loc = Some (key, v))"
proof (induction locs arbitrary: idx)
  case Nil
  then show ?case by simp
next
  case (Cons loc locs)
  from Cons.prems have "fold indexStep locs (indexStep loc idx) key = Some v" by simp
  from Cons.IH [OF this] show ?case
  proof
    assume "indexStep loc idx key = Some v"
    then show ?thesis
      by (auto simp: indexStep_eq split: option.splits if_splits)
  next
    assume "\<exists>l\<in>set locs. indexEntry l = Some (key, v)"
    then show ?thesis by auto
  qed
qed

lemma buildIndex_origin:
  "buildIndex locs key = Some v \<Longrightarrow> \<exists>loc\<in>set locs. indexEntry loc = Some (key, v)"
  using fold_indexStep_origin [of locs Map.empty key v] by (simp add: buildIndex_def)

lemma indexEntry_SomeD:
  assumes "indexEntry loc = Some (key, v)"
  shows "\<exists>n. 1 \<le> n \<and> n \<le> 4 \<and> map_of FEATURE_LEVELS (featureCode loc) = Some n
            \<and> getAdminLevel loc = Level n \<and> chainPopulated loc n
            \<and> key = chainKey loc n \<and> v = geonameid loc"
  using assms
  by (auto simp: indexEntry_def getAdminLevel_def FEATURE_LEVELS_get_Level
        split: option.splits jslevel.splits if_splits)

lemma indexStep_skips:
  assumes "getAdminLevel loc = Level 5 \<or> getAdminLevel loc = Level 0
             \<or> map_of FEATURE_LEVELS (featureCode loc) = None"
  shows "indexStep loc i = i"
proof (cases "indexEntry loc")
  case None
  then show ?thesis by (simp add: indexStep_eq)
next
  case (Some e)
  obtain k v where "e = (k, v)" by (cases e)
  with Some indexEntry_SomeD [of loc k v] assms show ?thesis by auto
qed



lemma resolved_parent_record:
  assumes "determineParentForLocation loc c (buildIndex locs) = Some p" "p \<noteq> c"
  shows "p \<in> geonameid ` set locs"
proof -
  from resolved_parent_cases [OF assms(1)] assms(2) obtain k where "hit (buildIndex locs) k = Some p"
    by auto
  then have "buildIndex locs k = Some p" by (simp add: hit_Some_iff)
  from buildIndex_origin [OF this] obtain d where "d \<in> set locs" "indexEntry d = Some (k, p)"
    by blast
  with indexEntry_SomeD [OF this(2)] show ?thesis by auto
qed


lemma division_parent_level:
  assumes "\<forall>x\<in>set locs. dotFree x" and "dotFree loc"
      and "map_of FEATURE_LEVELS (featureCode loc) = Some n"
  shows "if n = 0 then determineParentForLocation loc c (buildIndex locs) = None
         else \<exists>p. determineParentForLocation loc c (buildIndex locs) = Some p \<and>
                (p = c \<or> (\<exists>d\<in>set locs. geonameid d = p \<and> getAdminLevel d = Level (n - 1)
                              \<and> map_of FEATURE_LEVELS (featureCode d) = Some (n - 1)))"
proof -
  let ?idx = "buildIndex locs"
  from assms(3) have fl: "FEATURE_LEVELS_get (featureCode loc) = Some (Level n)"
    by (simp add: FEATURE_LEVELS_get_Level)
  have lv: "getAdminLevel loc = Level n" by (rule level_of_code [OF assms(3)])
  from map_of_FEATURE_LEVELS_cases [OF assms(3)] have n5: "n \<le> 5" by auto
  have res: "determineParentForLocation loc c ?idx = snd (determineParent_log loc c ?idx)"
    using fl by (simp add: determineParentForLocation_def resolver_recognized)
  consider "n = 0" | "n = 1" | "2 \<le> n" by arith
  then show ?thesis
  proof cases
    case 1
    with lv res show ?thesis by (simp add: determineParent_log_def)
  next
    case 2
    with lv res show ?thesis by (simp add: determineParent_log_def)
  next
    case 3
    note dl = determineParent_log_level [OF lv 3 n5, of c ?idx]
    show ?thesis
    proof (cases "chainPopulated loc (n - 1) \<and> hit ?idx (chainKey loc (n - 1)) \<noteq> None")
      case False
      with 3 res dl show ?thesis by (auto split: option.splits)
    next
      case True
      then obtain v where hv: "hit ?idx (chainKey loc (n - 1)) = Some v" by auto
      then have "?idx (chainKey loc (n - 1)) = Some v" by (simp add: hit_Some_iff)
      from buildIndex_origin [OF this] obtain d where d: "d \<in> set locs"
        and "indexEntry d = Some (chainKey loc (n - 1), v)" by blast
      from indexEntry_SomeD [OF this(2)] obtain m where m: "1 \<le> m" "m \<le> 4"
        "map_of FEATURE_LEVELS (featureCode d) = Some m" "getAdminLevel d = Level m"
        "chainKey loc (n - 1) = chainKey d m" "v = geonameid d" by blast
      have "n - 1 = m"
        using chainKey_eq_level [OF m(5)] assms(1,2) d m(2) n5 by auto
      with m d have "\<exists>d\<in>set locs. geonameid d = v \<and> getAdminLevel d = Level (n - 1)
                       \<and> map_of FEATURE_LEVELS (featureCode d) = Some (n - 1)" by auto
      with True hv 3 res dl show ?thesis by auto
    qed
  qed
qed


subsection \<open>The second and third loops\<close>


lemma trackChild_plain:
  assumes "parent = None \<or> (\<exists>p. parent = Some p \<and> p \<notin> set objectPrototypeNames)"
  shows "trackChild parent child cm \<noteq> None"
  using assms by (auto simp: trackChild_def split: option.splits)



lemma secondPass_completes:
  assumes "cid \<notin> set objectPrototypeNames"
      and "\<forall>loc\<in>set all. geonameid loc \<notin> set objectPrototypeNames"
      and "set locs \<subseteq> set all"
  shows "\<exists>s1 cm1. secondPass cid (buildIndex all) locs (s, cm) = Inr (s1, cm1)"
  using assms(3)
proof (induction locs arbitrary: s cm)
  case Nil
  show ?case by simp
next
  case (Cons loc locs)
  let ?parent = "determineParentForLocation loc cid (buildIndex all)"
  have "?parent = None \<or> (\<exists>p. ?parent = Some p \<and> p \<notin> set objectPrototypeNames)"
  proof (cases ?parent)
    case None
    then show ?thesis by simp
  next
    case (Some p)
    have "p \<notin> set objectPrototypeNames"
    proof (cases "p = cid")
      case True
      with assms(1) show ?thesis by simp
    next
      case False
      from resolved_parent_record [OF Some False] assms(2) show ?thesis by auto
    qed
    with Some show ?thesis by simp
  qed
  from trackChild_plain [OF this] obtain cm' where "trackChild ?parent (geonameid loc) cm = Some cm'"
    by blast
  moreover from Cons.prems have "set locs \<subseteq> set all" by simp
  from Cons.IH [OF this] have "\<exists>s1 cm1. secondPass cid (buildIndex all) locs
        (s(geonameid loc \<mapsto> locationNode loc (getAdminLevel loc) ?parent), cm') = Inr (s1, cm1)" .
  ultimately show ?case by (simp add: Let_def)
qed




lemma thirdPass_apply:
  "distinct (map fst entries) \<Longrightarrow>
     thirdPass entries s k =
       (case map_of entries k of
          None \<Rightarrow> s k
        | Some childIds \<Rightarrow> map_option (setChildren childIds) (s k))"
proof (induction entries arbitrary: s)
  case Nil
  show ?case by simp
next
  case (Cons e entries)
  obtain p ids where e: "e = (p, ids)" by (cases e)
  from Cons.prems e have d: "distinct (map fst entries)" and p: "map_of entries p = None"
    by (auto simp: map_of_eq_None_iff)
  show ?case
    using Cons.IH [OF d] p
    by (auto simp: e split: option.splits)
qed

lemma thirdPass_perm:
  assumes "distinct (map fst entries)" "distinct (map fst entries')" "set entries = set entries'"
  shows "thirdPass entries s = thirdPass entries' s"
proof
  fix k
  have "map_of entries = map_of entries'"
    using assms by (rule map_of_inject_set [THEN iffD2])
  then show "thirdPass entries s k = thirdPass entries' s k"
    by (simp add: thirdPass_apply assms(1,2))
qed






subsection \<open>Processing one country\<close>

lemma find_first:
  "List.find P xs = Some x \<longleftrightarrow>
     (\<exists>before after. xs = before @ x # after \<and> P x \<and> (\<forall>y\<in>set before. \<not> P y))"
proof (induction xs)
  case Nil
  show ?case by simp
next
  case (Cons a xs)
  show ?case
  proof (cases "P a")
    case True
    have "(\<exists>before after. a # xs = before @ x # after \<and> P x \<and> (\<forall>y\<in>set before. \<not> P y))
            \<longleftrightarrow> a = x"
    proof
      assume "\<exists>before after. a # xs = before @ x # after \<and> P x \<and> (\<forall>y\<in>set before. \<not> P y)"
      then obtain before after where *: "a # xs = before @ x # after" "\<forall>y\<in>set before. \<not> P y"
        by blast
      with True show "a = x" by (cases before) auto
    next
      assume "a = x"
      with True have "a # xs = [] @ x # xs \<and> P x \<and> (\<forall>y\<in>set []. \<not> P y)" by simp
      then show "\<exists>before after. a # xs = before @ x # after \<and> P x \<and> (\<forall>y\<in>set before. \<not> P y)"
        by blast
    qed
    with True show ?thesis by simp
  next
    case False
    have "(\<exists>before after. a # xs = before @ x # after \<and> P x \<and> (\<forall>y\<in>set before. \<not> P y))
            \<longleftrightarrow> (\<exists>before after. xs = before @ x # after \<and> P x \<and> (\<forall>y\<in>set before. \<not> P y))"
    proof
      assume "\<exists>before after. a # xs = before @ x # after \<and> P x \<and> (\<forall>y\<in>set before. \<not> P y)"
      then obtain before after where *: "a # xs = before @ x # after" "P x" "\<forall>y\<in>set before. \<not> P y"
        by blast
      with False obtain b' where "before = a # b'" by (cases before) auto
      with * have "xs = b' @ x # after \<and> P x \<and> (\<forall>y\<in>set b'. \<not> P y)" by simp
      then show "\<exists>before after. xs = before @ x # after \<and> P x \<and> (\<forall>y\<in>set before. \<not> P y)"
        by blast
    next
      assume "\<exists>before after. xs = before @ x # after \<and> P x \<and> (\<forall>y\<in>set before. \<not> P y)"
      then obtain before after where "xs = before @ x # after" "P x" "\<forall>y\<in>set before. \<not> P y"
        by blast
      with False have "a # xs = (a # before) @ x # after \<and> P x \<and> (\<forall>y\<in>set (a # before). \<not> P y)"
        by simp
      then show "\<exists>before after. a # xs = before @ x # after \<and> P x \<and> (\<forall>y\<in>set before. \<not> P y)"
        by blast
    qed
    with False Cons.IH show ?thesis by simp
  qed
qed

lemma findDataEntry_first:
  "findDataEntry countryIso zipEntries = Some entry \<longleftrightarrow>
     (\<exists>before after. zipEntries = before @ entry # after \<and> isDataEntry countryIso entry \<and>
        (\<forall>x\<in>set before. \<not> isDataEntry countryIso x))"
  unfolding findDataEntry_def by (rule find_first)


lemma run_completes:
  assumes "findDataEntry (iso c) zipEntries = Some dataEntry"
      and "firstPass (splitOn NEWLINE (entryData dataEntry)) (Map.empty, []) = (idx, locs)"
      and "country.geonameid c \<notin> set objectPrototypeNames"
      and "\<forall>loc\<in>set locs. geonameid loc \<notin> set objectPrototypeNames"
  shows "snd (processCountryZip c (Zip zipEntries) s) = Processed"
proof -
  from firstPassD [OF assms(2)] have idx: "idx = buildIndex locs" by simp
  from secondPass_completes [OF assms(3,4) subset_refl, of s "[]"] obtain s1 cm1
    where "secondPass (country.geonameid c) idx locs (s, []) = Inr (s1, cm1)"
    unfolding idx by blast
  with assms(1,2) show ?thesis by (simp add: processCountryZip_def)
qed







subsection \<open>Data files that hold given records\<close>

lemma splitOn_field:
  "c \<notin> set a \<Longrightarrow> splitOn c (a @ c # rest) = a # splitOn c rest"
  by (induction a) auto

lemma parse_lineOf_place:
  assumes "TAB \<notin> set gid" "TAB \<notin> set fc" "TAB \<notin> set cc"
      and "TAB \<notin> set a1" "TAB \<notin> set a2" "TAB \<notin> set a3" "TAB \<notin> set a4"
  shows "parseGeonamesLine (lineOf (place gid fc cc a1 a2 a3 a4)) = Some (place gid fc cc a1 a2 a3 a4)"
proof -
  have "splitOn TAB (lineOf (place gid fc cc a1 a2 a3 a4)) =
          [gid, [], [], [], [], [], [], fc, cc, [], a1, a2, a3, a4, [], [], [], [], []]"
    using assms splitOn_field [of TAB "[]"]
    by (simp add: lineOf_def place_def splitOn_field)
  then show ?thesis
    by (simp add: parseGeonamesLine_def place_def)
qed

lemma parseLines_Cons_place:
  assumes "TAB \<notin> set gid" "TAB \<notin> set fc" "TAB \<notin> set cc"
      and "TAB \<notin> set a1" "TAB \<notin> set a2" "TAB \<notin> set a3" "TAB \<notin> set a4"
      and "\<not> list_all jsWhitespace gid"
  shows "parseLines (lineOf (place gid fc cc a1 a2 a3 a4) # lines) =
           place gid fc cc a1 a2 a3 a4 # parseLines lines"
proof -
  have "\<not> blankLine (lineOf (place gid fc cc a1 a2 a3 a4))"
    using assms(8) by (simp add: blankLine_def lineOf_def place_def)
  then show ?thesis
    using parse_lineOf_place [OF assms(1-7)] by (simp add: parseLines_def map_filter_simps)
qed

lemma parseLines_Nil: "parseLines [] = []"
  by (simp add: parseLines_def map_filter_simps)

lemma parseLines_blank: "parseLines ([] # lines) = parseLines lines"
  by (simp add: parseLines_def map_filter_simps blankLine_def)

lemma splitOn_terminated:
  "\<forall>l\<in>set ls. c \<notin> set l \<Longrightarrow> splitOn c (concat (map (\<lambda>l. l @ [c]) ls)) = ls @ [[]]"
  by (induction ls) (simp_all add: splitOn_field)

lemma lines_fileOf:
  "\<forall>loc\<in>set locs. NEWLINE \<notin> set (lineOf loc) \<Longrightarrow>
     splitOn NEWLINE (fileOf locs) = map lineOf locs @ [[]]"
  using splitOn_terminated [of "map lineOf locs" NEWLINE]
  by (simp add: fileOf_def comp_def)

lemma lineOf_place_no_newline:
  assumes "NEWLINE \<notin> set gid" "NEWLINE \<notin> set fc" "NEWLINE \<notin> set cc"
      and "NEWLINE \<notin> set a1" "NEWLINE \<notin> set a2" "NEWLINE \<notin> set a3" "NEWLINE \<notin> set a4"
  shows "NEWLINE \<notin> set (lineOf (place gid fc cc a1 a2 a3 a4))"
  using assms by (simp add: lineOf_def place_def TAB_def NEWLINE_def)

lemma firstPass_fileOf:
  assumes "\<forall>loc\<in>set locs. NEWLINE \<notin> set (lineOf loc)"
      and "parseLines (map lineOf locs @ [[]]) = locs"
  shows "firstPass (splitOn NEWLINE (fileOf locs)) (Map.empty, []) = (buildIndex locs, locs)"
  using assms by (simp add: lines_fileOf firstPass_start)

lemma findDataEntry_archiveOf:
  "countryIso \<noteq> ''readme'' \<Longrightarrow> findDataEntry countryIso
     [\<lparr> entryName = ''readme.txt'', isDirectory = False, entryData = ''README'' \<rparr>,
      \<lparr> entryName = countryIso @ ''.txt'', isDirectory = False, entryData = fileOf locs \<rparr>]
   = Some \<lparr> entryName = countryIso @ ''.txt'', isDirectory = False, entryData = fileOf locs \<rparr>"
  by (simp add: findDataEntry_def isDataEntry_def)

lemma processCountryZip_archiveOf:
  assumes "\<forall>loc\<in>set locs. NEWLINE \<notin> set (lineOf loc)"
      and "parseLines (map lineOf locs @ [[]]) = locs"
      and "iso c \<noteq> ''readme''"
  shows "processCountryZip c (archiveOf (iso c) locs) s =
           (case secondPass (country.geonameid c) (buildIndex locs) locs (s, []) of
              Inl s' \<Rightarrow> (s', Failed)
            | Inr (s', cm) \<Rightarrow> (thirdPass cm s', Processed))"
  by (simp add: processCountryZip_def archiveOf_def findDataEntry_archiveOf
        firstPass_fileOf [OF assms(1,2)] assms(3))


subsection \<open>Rules for evaluating the examples\<close>

lemmas parse_example = parseLines_Cons_place parseLines_Nil TAB_def jsWhitespace_def

lemmas eval_place_lines = lineOf_place_no_newline [unfolded NEWLINE_def] parseLines_Cons_place parseLines_blank
  parseLines_Nil TAB_def NEWLINE_def jsWhitespace_def

lemmas eval_resolver = determineParentForLocation_def determineParentForLocation_log_def
  determineParent_log_def getAdminLevel_def FEATURE_LEVELS_get_def FEATURE_LEVELS_def
  objectPrototypeNames_def truthy_def tryKey_simps orCountry_def Let_def hit_def
  key1_def key2_def key3_def key4_def

lemmas eval_index = buildIndex_def indexStep_def getAdminLevel_def FEATURE_LEVELS_get_def
  FEATURE_LEVELS_def objectPrototypeNames_def truthy_def Let_def key1_def key2_def key3_def key4_def

lemmas eval_pass = secondPass.simps thirdPass.simps trackChild_def locationNode_def levelMember_def
  setChildren.simps createCountryFiles.simps countryNode_def countryCodeDoc_def

lemmas eval_nodes = nodeParent_def nodeLevel_def memberOf_def

lemmas eval_examples = usCountry_def usRecords_def usPlaces_def dottedRecords_def andorra_def
  andorraRecords_def california_def sanFrancisco_def losAngeles_def missionDistrict_def
  duplicateRecords_def inheritedCodeRecords_def puertoRico_def puertoRicoRecords_def

section \<open>Level Classifier: claim C6\<close>




section \<open>Parent Resolver: claims C3, C2 and C1\<close>

text \<open>
  Claim C3, as the code has it. For an administrative-division record of level \<open>n\<close>
  from 2 to 5 the resolver probes at most one key: the key of \<open>n - 1\<close> segments when
  the admin codes 1 to \<open>n - 1\<close> are all populated, and no key otherwise. It returns the
  id found under that key, and the country id whenever no id was found; no shorter key is
  ever consulted.
\<close>

theorem division_single_lookup:
  assumes "map_of FEATURE_LEVELS (featureCode loc) = Some n" and "2 \<le> n"
  shows "determineParentForLocation_log loc c idx =
           (if chainPopulated loc (n - 1) then [chainKey loc (n - 1)] else [],
            Some (if chainPopulated loc (n - 1)
                  then (case hit idx (chainKey loc (n - 1)) of Some v \<Rightarrow> v | None \<Rightarrow> c)
                  else c))"
proof -
  from assms(1) have fl: "FEATURE_LEVELS_get (featureCode loc) = Some (Level n)"
    by (simp add: FEATURE_LEVELS_get_Level)
  then have lv: "getAdminLevel loc = Level n" by (rule getAdminLevel_recognized)
  from map_of_FEATURE_LEVELS_cases [OF assms(1)] have "n \<le> 5" by auto
  with lv assms(2) fl show ?thesis
    by (simp add: resolver_recognized determineParent_log_level)
qed

theorem division_single_lookup_witness:
  "map_of FEATURE_LEVELS ''ADM3'' = Some 3 \<and> (2::nat) \<le> 3 \<and>
   determineParentForLocation_log (place ''7'' ''ADM3'' ''US'' ''CA'' ''075'' ''X'' []) ''6252001''
     [''US.CA'' \<mapsto> ''5332921''] = ([''US.CA.075''], Some ''6252001'')"
  using division_single_lookup [of "place ''7'' ''ADM3'' ''US'' ''CA'' ''075'' ''X'' []" 3
          "''6252001''" "[''US.CA'' \<mapsto> ''5332921'']"]
  by (simp add: FEATURE_LEVELS_def place_def chainPopulated_simps chainKey_simps truthy_def
        key2_def hit_def)

text \<open>
  An ADM2 record with an empty admin1 code: the guard \<^verbatim>\<open>level === 2 && location.admin1Code\<close>
  fails, and the resolver returns the country id without any index lookup, also when the
  index has an entry under the key \<^verbatim>\<open>US.\<close> that the record's codes would give.
\<close>

theorem division_lookup_counterexample:
  "getAdminLevel (place ''5'' ''ADM2'' ''US'' [] ''075'' [] []) = Level 2 \<and>
   fst (determineParentForLocation_log (place ''5'' ''ADM2'' ''US'' [] ''075'' [] []) ''6252001''
          [''US.'' \<mapsto> ''9'']) = [] \<and>
   determineParentForLocation (place ''5'' ''ADM2'' ''US'' [] ''075'' [] []) ''6252001''
          [''US.'' \<mapsto> ''9''] = Some ''6252001''"
  by (simp add: determineParentForLocation_def determineParentForLocation_log_def
        determineParent_log_def getAdminLevel_def FEATURE_LEVELS_get_def FEATURE_LEVELS_def
        place_def truthy_def tryKey_simps orCountry_def Let_def)




text \<open>
  Claim C1, as the code has it. In a file whose records have no separator character in
  their country and admin codes, a record with feature code ADM1 to ADM5 gets as parent
  the country id or the id of an administrative-division record of the file whose level
  is one less than its own; a PCLI record gets no parent.
\<close>

theorem admin_parent_one_level_up:
  assumes "firstPass lines (Map.empty, []) = (idx, locs)"
      and "\<forall>x\<in>set locs. dotFree x"
      and "loc \<in> set locs"
      and "map_of FEATURE_LEVELS (featureCode loc) = Some n"
  shows "if n = 0 then determineParentForLocation loc c idx = None
         else \<exists>p. determineParentForLocation loc c idx = Some p \<and>
                (p = c \<or> (\<exists>d\<in>set locs. geonameid d = p \<and> getAdminLevel d = Level (n - 1)
                              \<and> map_of FEATURE_LEVELS (featureCode d) = Some (n - 1)))"
proof -
  from firstPassD [OF assms(1)] have idx: "idx = buildIndex locs" by simp
  from assms(2,3) have "dotFree loc" by auto
  from division_parent_level [OF assms(2) this assms(4), of c] show ?thesis
    unfolding idx .
qed

theorem admin_parent_one_level_up_witness:
  "firstPass [lineOf (place ''5332921'' ''ADM1'' ''US'' ''CA'' [] [] []),
              lineOf (place ''5391959'' ''ADM2'' ''US'' ''CA'' ''075'' [] [])] (Map.empty, [])
     = ([''US.CA'' \<mapsto> ''5332921'', ''US.CA.075'' \<mapsto> ''5391959''],
        [place ''5332921'' ''ADM1'' ''US'' ''CA'' [] [] [],
         place ''5391959'' ''ADM2'' ''US'' ''CA'' ''075'' [] []]) \<and>
   dotFree (place ''5332921'' ''ADM1'' ''US'' ''CA'' [] [] []) \<and>
   dotFree (place ''5391959'' ''ADM2'' ''US'' ''CA'' ''075'' [] []) \<and>
   map_of FEATURE_LEVELS ''ADM2'' = Some 2 \<and>
   determineParentForLocation (place ''5391959'' ''ADM2'' ''US'' ''CA'' ''075'' [] []) ''6252001''
     [''US.CA'' \<mapsto> ''5332921'', ''US.CA.075'' \<mapsto> ''5391959''] = Some ''5332921'' \<and>
   getAdminLevel (place ''5332921'' ''ADM1'' ''US'' ''CA'' [] [] []) = Level 1"
proof -
  have fp: "firstPass [lineOf (place ''5332921'' ''ADM1'' ''US'' ''CA'' [] [] []),
              lineOf (place ''5391959'' ''ADM2'' ''US'' ''CA'' ''075'' [] [])] (Map.empty, [])
     = ([''US.CA'' \<mapsto> ''5332921'', ''US.CA.075'' \<mapsto> ''5391959''],
        [place ''5332921'' ''ADM1'' ''US'' ''CA'' [] [] [],
         place ''5391959'' ''ADM2'' ''US'' ''CA'' ''075'' [] []])"
    by (simp add: firstPass_start parse_example) (simp add: eval_index place_def)
  have df: "\<forall>x\<in>set [place ''5332921'' ''ADM1'' ''US'' ''CA'' [] [] [],
                      place ''5391959'' ''ADM2'' ''US'' ''CA'' ''075'' [] []]. dotFree x"
    by (simp add: dotFree_def adminCodes_def place_def)
  have code: "map_of FEATURE_LEVELS (featureCode (place ''5391959'' ''ADM2'' ''US'' ''CA'' ''075'' [] [])) = Some 2"
    by (simp add: FEATURE_LEVELS_def place_def)
  from admin_parent_one_level_up [OF fp df _ code, of "''6252001''"] fp df
  show ?thesis
    by (simp add: eval_resolver place_def)
qed

text \<open>
  Two inputs on which the parent is neither. A PCLI record has level 0 and the resolver
  returns \<^verbatim>\<open>null\<close>. An ADM3 record with admin codes \<^verbatim>\<open>A\<close> and \<^verbatim>\<open>B\<close> probes the
  key \<^verbatim>\<open>US.A.B\<close>, which an ADM1 record with the admin1 code \<^verbatim>\<open>A.B\<close> has written: the
  parent is a division two levels up, and the file has no level-2 division at all.
\<close>

theorem admin_parent_counterexample:
  "map_of FEATURE_LEVELS ''PCLI'' = Some 0 \<and>
   determineParentForLocation (place ''6252001'' ''PCLI'' ''US'' [] [] [] []) ''6252001'' Map.empty = None \<and>
   firstPass [lineOf (place ''1'' ''ADM1'' ''US'' ''A.B'' [] [] []),
              lineOf (place ''3'' ''ADM3'' ''US'' ''A'' ''B'' [] [])] (Map.empty, [])
     = ([''US.A.B'' \<mapsto> ''1''],
        [place ''1'' ''ADM1'' ''US'' ''A.B'' [] [] [], place ''3'' ''ADM3'' ''US'' ''A'' ''B'' [] []]) \<and>
   determineParentForLocation (place ''3'' ''ADM3'' ''US'' ''A'' ''B'' [] []) ''6252001''
     [''US.A.B'' \<mapsto> ''1''] = Some ''1'' \<and>
   getAdminLevel (place ''3'' ''ADM3'' ''US'' ''A'' ''B'' [] []) = Level 3 \<and>
   getAdminLevel (place ''1'' ''ADM1'' ''US'' ''A.B'' [] [] []) = Level 1"
  by (simp add: firstPass_start parse_example) (simp add: eval_index eval_resolver place_def)

section \<open>Admin-Code Index: claims C4 and C10\<close>

text \<open>
  Claim C4. Every entry of the index built by the first loop comes from a record of the
  file whose feature code is a recognized administrative code of level \<open>n\<close> between 1
  and 4 and whose admin codes 1 to \<open>n\<close> are all populated; the key is the country code
  followed by exactly these \<open>n\<close> admin segments, and the value is the record's id. A
  record of level 5 or level 0, or one without a recognized code, leaves the index as it
  is.
\<close>

theorem index_entries_origin:
  assumes "firstPass lines (Map.empty, []) = (idx, locs)" and "idx key = Some v"
  shows "(\<exists>loc\<in>set locs. \<exists>n. 1 \<le> n \<and> n \<le> 4
            \<and> map_of FEATURE_LEVELS (featureCode loc) = Some n
            \<and> getAdminLevel loc = Level n \<and> chainPopulated loc n
            \<and> key = chainKey loc n \<and> v = geonameid loc) \<and>
         (\<forall>loc i. getAdminLevel loc = Level 5 \<or> getAdminLevel loc = Level 0
                   \<or> map_of FEATURE_LEVELS (featureCode loc) = None
                 \<longrightarrow> indexStep loc i = i)"
proof -
  from firstPassD [OF assms(1)] assms(2) have "buildIndex locs key = Some v" by simp
  from buildIndex_origin [OF this] obtain loc where loc: "loc \<in> set locs"
    and entry: "indexEntry loc = Some (key, v)" by blast
  from indexEntry_SomeD [OF entry] obtain n where "1 \<le> n \<and> n \<le> 4
            \<and> map_of FEATURE_LEVELS (featureCode loc) = Some n
            \<and> getAdminLevel loc = Level n \<and> chainPopulated loc n
            \<and> key = chainKey loc n \<and> v = geonameid loc" by blast
  with loc have "\<exists>loc\<in>set locs. \<exists>n. 1 \<le> n \<and> n \<le> 4
            \<and> map_of FEATURE_LEVELS (featureCode loc) = Some n
            \<and> getAdminLevel loc = Level n \<and> chainPopulated loc n
            \<and> key = chainKey loc n \<and> v = geonameid loc" by blast
  moreover have "\<forall>loc i. getAdminLevel loc = Level 5 \<or> getAdminLevel loc = Level 0
                   \<or> map_of FEATURE_LEVELS (featureCode loc) = None
                 \<longrightarrow> indexStep loc i = i"
    using indexStep_skips by blast
  ultimately show ?thesis by (rule conjI)
qed

theorem index_entries_origin_witness:
  "firstPass [lineOf (place ''5332921'' ''ADM1'' ''US'' ''CA'' [] [] []),
              lineOf (place ''5391959'' ''ADM5'' ''US'' ''CA'' ''075'' ''X'' ''Y''),
              lineOf (place ''5391997'' ''PPL'' ''US'' ''CA'' ''075'' [] [])] (Map.empty, [])
     = ([''US.CA'' \<mapsto> ''5332921''],
        [place ''5332921'' ''ADM1'' ''US'' ''CA'' [] [] [],
         place ''5391959'' ''ADM5'' ''US'' ''CA'' ''075'' ''X'' ''Y'',
         place ''5391997'' ''PPL'' ''US'' ''CA'' ''075'' [] []]) \<and>
   [''US.CA'' \<mapsto> ''5332921''] ''US.CA'' = Some ''5332921'' \<and>
   map_of FEATURE_LEVELS ''ADM1'' = Some 1 \<and>
   getAdminLevel (place ''5332921'' ''ADM1'' ''US'' ''CA'' [] [] []) = Level 1 \<and>
   chainPopulated (place ''5332921'' ''ADM1'' ''US'' ''CA'' [] [] []) 1 \<and>
   chainKey (place ''5332921'' ''ADM1'' ''US'' ''CA'' [] [] []) 1 = ''US.CA'' \<and>
   (\<exists>loc\<in>set [place ''5332921'' ''ADM1'' ''US'' ''CA'' [] [] [],
                 place ''5391959'' ''ADM5'' ''US'' ''CA'' ''075'' ''X'' ''Y'',
                 place ''5391997'' ''PPL'' ''US'' ''CA'' ''075'' [] []].
      \<exists>n. 1 \<le> n \<and> n \<le> 4 \<and> map_of FEATURE_LEVELS (featureCode loc) = Some n
           \<and> getAdminLevel loc = Level n \<and> chainPopulated loc n
           \<and> ''US.CA'' = chainKey loc n \<and> ''5332921'' = geonameid loc)"
proof -
  have fp: "firstPass [lineOf (place ''5332921'' ''ADM1'' ''US'' ''CA'' [] [] []),
              lineOf (place ''5391959'' ''ADM5'' ''US'' ''CA'' ''075'' ''X'' ''Y''),
              lineOf (place ''5391997'' ''PPL'' ''US'' ''CA'' ''075'' [] [])] (Map.empty, [])
     = ([''US.CA'' \<mapsto> ''5332921''],
        [place ''5332921'' ''ADM1'' ''US'' ''CA'' [] [] [],
         place ''5391959'' ''ADM5'' ''US'' ''CA'' ''075'' ''X'' ''Y'',
         place ''5391997'' ''PPL'' ''US'' ''CA'' ''075'' [] []])"
    by (simp add: firstPass_start parse_example) (simp add: eval_index place_def)
  have one: "map_of FEATURE_LEVELS ''ADM1'' = Some 1 \<and>
     getAdminLevel (place ''5332921'' ''ADM1'' ''US'' ''CA'' [] [] []) = Level 1 \<and>
     chainPopulated (place ''5332921'' ''ADM1'' ''US'' ''CA'' [] [] []) 1 \<and>
     chainKey (place ''5332921'' ''ADM1'' ''US'' ''CA'' [] [] []) 1 = ''US.CA''"
    by (simp add: FEATURE_LEVELS_def getAdminLevel_def FEATURE_LEVELS_get_def chainPopulated_simps
          chainKey_simps key1_def truthy_def place_def)
  have entry: "[''US.CA'' \<mapsto> ''5332921''] ''US.CA'' = Some ''5332921''" by simp
  note origin = index_entries_origin [OF fp entry, THEN conjunct1]
  from fp entry one show ?thesis
    by (intro conjI origin) simp_all
qed



section \<open>Children Aggregator and Node Store: claims C7, C5 and C9\<close>






text \<open>
  The case that the statement above sets aside, on real data: the file of a dependent
  territory holds the territory's own row under the country's id, with a feature code
  that is not a recognized one. The row is resolved like an ordinary place, falls back to
  the country id, and so becomes its own parent, at level 2.
\<close>

lemma territory_row_own_parent:
  "snd (processCountryZip puertoRico (archiveOf ''PR'' puertoRicoRecords)
          (createCountryFiles [puertoRico] Map.empty)) = Processed \<and>
   nodeParent (fst (processCountryZip puertoRico (archiveOf ''PR'' puertoRicoRecords)
          (createCountryFiles [puertoRico] Map.empty))) ''4566966'' = Some ''4566966'' \<and>
   nodeLevel (fst (processCountryZip puertoRico (archiveOf ''PR'' puertoRicoRecords)
          (createCountryFiles [puertoRico] Map.empty))) ''4566966'' = Some 2"
proof -
  let ?s = "createCountryFiles [puertoRico] Map.empty"
  have "\<forall>loc\<in>set puertoRicoRecords. NEWLINE \<notin> set (lineOf loc)"
    "parseLines (map lineOf puertoRicoRecords @ [[]]) = puertoRicoRecords"
    "iso puertoRico \<noteq> ''readme''"
    by (simp_all add: eval_examples eval_place_lines)
  note run = processCountryZip_archiveOf [OF this, of ?s]
  have "snd (processCountryZip puertoRico (archiveOf (iso puertoRico) puertoRicoRecords) ?s) = Processed \<and>
    nodeParent (fst (processCountryZip puertoRico (archiveOf (iso puertoRico) puertoRicoRecords) ?s))
      ''4566966'' = Some ''4566966'' \<and>
    nodeLevel (fst (processCountryZip puertoRico (archiveOf (iso puertoRico) puertoRicoRecords) ?s))
      ''4566966'' = Some 2"
    unfolding run
    by (simp add: eval_examples eval_index eval_resolver eval_pass eval_nodes place_def)
  then show ?thesis by (simp add: puertoRico_def)
qed

text \<open>
  Claim C9 on the country Andorra, whose data file holds the row of the country itself
  under the country's id. The second loop writes that row's node over the node of the
  Country Catalog Builder: after the run the node of the country has no \<open>iso\<close>,
  \<open>iso3\<close>, \<open>capital\<close>, \<open>area\<close>, \<open>continent\<close> or \<open>languages\<close> member, and its name and
  population are those of the row.
\<close>

theorem country_node_overwritten:
  "createCountryFiles [andorra] Map.empty ''3041565'' =
     Some (Obj [(''id'', JString ''3041565''), (''parent'', JNull), (''children'', JStrings []),
                (''name'', JString ''Andorra''), (''level'', JNumber 0),
                (''iso'', JString ''AD''), (''iso3'', JString ''AND''),
                (''capital'', JString ''Andorra la Vella''), (''area'', JString ''468''),
                (''population'', JString ''77006''), (''continent'', JString ''EU''),
                (''languages'', JString ''ca'')]) \<and>
   processCountryZip andorra (archiveOf ''AD'' andorraRecords) (createCountryFiles [andorra] Map.empty)
     = (fst (processCountryZip andorra (archiveOf ''AD'' andorraRecords)
               (createCountryFiles [andorra] Map.empty)), Processed) \<and>
   fst (processCountryZip andorra (archiveOf ''AD'' andorraRecords)
          (createCountryFiles [andorra] Map.empty)) ''3041565'' =
     Some (Obj [(''id'', JString ''3041565''), (''parent'', JNull),
                (''children'', JStrings [''3041203'']),
                (''name'', JString []), (''level'', JNumber 0), (''latitude'', JString []),
                (''longitude'', JString []), (''population'', JString [])])"
proof -
  let ?s = "createCountryFiles [andorra] Map.empty"
  have lines: "\<forall>loc\<in>set andorraRecords. NEWLINE \<notin> set (lineOf loc)"
    "parseLines (map lineOf andorraRecords @ [[]]) = andorraRecords" "iso andorra \<noteq> ''readme''"
    by (simp_all add: eval_examples eval_place_lines)
  have run: "processCountryZip andorra (archiveOf (iso andorra) andorraRecords) ?s =
           (case secondPass (country.geonameid andorra) (buildIndex andorraRecords) andorraRecords (?s, []) of
              Inl s' \<Rightarrow> (s', Failed) | Inr (s', cm) \<Rightarrow> (thirdPass cm s', Processed))"
    by (rule processCountryZip_archiveOf [OF lines])
  then show ?thesis
    by (simp add: eval_examples eval_index eval_resolver eval_pass place_def)
qed

section \<open>Selecting the data file: claim C8\<close>

text \<open>
  Claim C8 on an archive that holds \<^verbatim>\<open>notes.txt\<close> before \<^verbatim>\<open>US.txt\<close>: the entry found is
  \<^verbatim>\<open>notes.txt\<close>, the first one that passes the test, although an entry with the exact
  name exists.
\<close>

theorem data_entry_first_match:
  "findDataEntry ''US''
     [\<lparr> entryName = ''notes.txt'', isDirectory = False, entryData = ''to do'' \<rparr>,
      \<lparr> entryName = ''US.txt'', isDirectory = False, entryData = fileOf [california] \<rparr>]
   = Some \<lparr> entryName = ''notes.txt'', isDirectory = False, entryData = ''to do'' \<rparr>"
  by (simp add: findDataEntry_def isDataEntry_def endsWith_def)

end
